theory Spec2Isabelle
  imports Main "HOL-Library.Word"
begin

section \<open>The graphics API as seen by the shader pipeline\<close>

text \<open>
  The repository holds two copies of one shader build pipeline:
  \<^item> \<^verbatim>\<open>src/main.cpp\<close> (desktop): \<^verbatim>\<open>compileShader\<close> and \<^verbatim>\<open>createShaderProgram\<close>;
  \<^item> \<^verbatim>\<open>src/main_vxworks.cpp\<close> (VxWorks): \<^verbatim>\<open>loadShader\<close> and \<^verbatim>\<open>createProgram\<close>.

  Both are straight-line code over the OpenGL API. The API is not part of the repository,
  so it is a parameter of the model: a driver answers every call that returns something,
  and every call the pipeline makes is appended to a trace together with the answer it got.
  Writes to \<^verbatim>\<open>std::cerr\<close> go to the same trace, so that the order of calls and diagnostics
  is kept.
\<close>

type_synonym GLuint = "32 word"
type_synonym GLint = "32 word"     \<comment> \<open>signed: read with \<open>sint\<close>, compared with \<open><s\<close>\<close>
type_synonym GLsizei = "32 word"   \<comment> \<open>signed\<close>

text \<open>The enumerators the two source files pass to the API.\<close>

datatype GLenum =
    GL_VERTEX_SHADER
  | GL_FRAGMENT_SHADER
  | GL_COMPILE_STATUS
  | GL_LINK_STATUS
  | GL_INFO_LOG_LENGTH

text \<open>
  One entry of the trace: an API call with its arguments and, where the call returns or
  writes something, that value as the last argument; or one write to \<^verbatim>\<open>std::cerr\<close>.
\<close>

datatype event =
    EvCreateShader GLenum GLuint
  | EvShaderSource GLuint string
  | EvCompileShader GLuint
  | EvGetShaderiv GLuint GLenum GLint
  | EvGetShaderInfoLog GLuint GLsizei string
  | EvDeleteShader GLuint
  | EvCreateProgram GLuint
  | EvAttachShader GLuint GLuint
  | EvLinkProgram GLuint
  | EvGetProgramiv GLuint GLenum GLint
  | EvGetProgramInfoLog GLuint GLsizei string
  | EvDeleteProgram GLuint
  | EvCerr string

type_synonym world = "event list"

text \<open>
  The \<^verbatim>\<open>glGet*\<close> calls are queries: they read the state of the GL and leave it as it is.
  The state of the GL is therefore the sequence of the other calls made so far.
\<close>

fun changes_state :: "event \<Rightarrow> bool" where
  "changes_state (EvGetShaderiv sh pname val) = False"
| "changes_state (EvGetShaderInfoLog sh n txt) = False"
| "changes_state (EvGetProgramiv p pname val) = False"
| "changes_state (EvGetProgramInfoLog p n txt) = False"
| "changes_state (EvCerr txt) = False"
| "changes_state e = True"

definition gl_state :: "world \<Rightarrow> event list" where
  "gl_state w = filter changes_state w"

text \<open>
  A driver: what the GL answers, in a given state, to each call that returns a value.
  Nothing is assumed about the answers: \<^verbatim>\<open>glCreateShader\<close> may return 0, handles may repeat,
  a failed compilation may have an empty log. \<open>shader_log\<close> and \<open>program_log\<close> are the whole
  information log the GL holds, without its terminating NUL.
\<close>

record gl_driver =
  create_shader :: "event list \<Rightarrow> GLenum \<Rightarrow> GLuint"
  create_program :: "event list \<Rightarrow> GLuint"
  shader_iv :: "event list \<Rightarrow> GLuint \<Rightarrow> GLenum \<Rightarrow> GLint"
  shader_log :: "event list \<Rightarrow> GLuint \<Rightarrow> string"
  program_iv :: "event list \<Rightarrow> GLuint \<Rightarrow> GLenum \<Rightarrow> GLint"
  program_log :: "event list \<Rightarrow> GLuint \<Rightarrow> string"

subsection \<open>The API calls\<close>

definition glCreateShader :: "gl_driver \<Rightarrow> GLenum \<Rightarrow> world \<Rightarrow> GLuint \<times> world" where
  "glCreateShader drv type w =
     (let shader = create_shader drv (gl_state w) type
      in (shader, w @ [EvCreateShader type shader]))"

text \<open>
  Both copies call \<^verbatim>\<open>glShaderSource(shader, 1, &source, nullptr)\<close>: one string, NUL-terminated.
\<close>

definition glShaderSource :: "GLuint \<Rightarrow> string \<Rightarrow> world \<Rightarrow> world" where
  "glShaderSource shader source w = w @ [EvShaderSource shader source]"

definition glCompileShader :: "GLuint \<Rightarrow> world \<Rightarrow> world" where
  "glCompileShader shader w = w @ [EvCompileShader shader]"

text \<open>
  \<^verbatim>\<open>glGetShaderiv(shader, pname, &params)\<close>: the value found in \<^verbatim>\<open>params\<close> after the call.
  Both copies declare that variable without an initial value, so what they test is what
  the driver stored there; the model takes it as the driver's answer.
\<close>

definition glGetShaderiv :: "gl_driver \<Rightarrow> GLuint \<Rightarrow> GLenum \<Rightarrow> world \<Rightarrow> GLint \<times> world" where
  "glGetShaderiv drv shader pname w =
     (let params = shader_iv drv (gl_state w) shader pname
      in (params, w @ [EvGetShaderiv shader pname params]))"

text \<open>
  \<^verbatim>\<open>glGetShaderInfoLog(shader, bufSize, nullptr, infoLog)\<close> stores at most \<open>bufSize\<close> bytes,
  the terminating NUL among them: the caller reads back at most \<open>bufSize - 1\<close> characters
  of the log.
\<close>

definition glGetShaderInfoLog :: "gl_driver \<Rightarrow> GLuint \<Rightarrow> GLsizei \<Rightarrow> world \<Rightarrow> string \<times> world" where
  "glGetShaderInfoLog drv shader bufSize w =
     (let infoLog = take (nat (sint bufSize) - 1) (shader_log drv (gl_state w) shader)
      in (infoLog, w @ [EvGetShaderInfoLog shader bufSize infoLog]))"

definition glDeleteShader :: "GLuint \<Rightarrow> world \<Rightarrow> world" where
  "glDeleteShader shader w = w @ [EvDeleteShader shader]"

definition glCreateProgram :: "gl_driver \<Rightarrow> world \<Rightarrow> GLuint \<times> world" where
  "glCreateProgram drv w =
     (let program = create_program drv (gl_state w)
      in (program, w @ [EvCreateProgram program]))"

definition glAttachShader :: "GLuint \<Rightarrow> GLuint \<Rightarrow> world \<Rightarrow> world" where
  "glAttachShader program shader w = w @ [EvAttachShader program shader]"

definition glLinkProgram :: "GLuint \<Rightarrow> world \<Rightarrow> world" where
  "glLinkProgram program w = w @ [EvLinkProgram program]"

definition glGetProgramiv :: "gl_driver \<Rightarrow> GLuint \<Rightarrow> GLenum \<Rightarrow> world \<Rightarrow> GLint \<times> world" where
  "glGetProgramiv drv program pname w =
     (let params = program_iv drv (gl_state w) program pname
      in (params, w @ [EvGetProgramiv program pname params]))"

definition glGetProgramInfoLog :: "gl_driver \<Rightarrow> GLuint \<Rightarrow> GLsizei \<Rightarrow> world \<Rightarrow> string \<times> world" where
  "glGetProgramInfoLog drv program bufSize w =
     (let infoLog = take (nat (sint bufSize) - 1) (program_log drv (gl_state w) program)
      in (infoLog, w @ [EvGetProgramInfoLog program bufSize infoLog]))"

definition glDeleteProgram :: "GLuint \<Rightarrow> world \<Rightarrow> world" where
  "glDeleteProgram program w = w @ [EvDeleteProgram program]"

text \<open>
  One statement \<^verbatim>\<open>std::cerr << a << b << std::endl\<close>: the text written, the newline of
  \<^verbatim>\<open>std::endl\<close> included.
\<close>

definition cerr :: "string \<Rightarrow> world \<Rightarrow> world" where
  "cerr txt w = w @ [EvCerr txt]"

section \<open>The desktop copy: \<^verbatim>\<open>src/main.cpp\<close>\<close>

text \<open>
  \<^verbatim>\<open>GLuint compileShader(GLenum type, const char* source)\<close>, lines 40 to 55.
  The log buffer is \<^verbatim>\<open>char infoLog[512]\<close>.
\<close>

definition compileShader :: "gl_driver \<Rightarrow> GLenum \<Rightarrow> string \<Rightarrow> world \<Rightarrow> GLuint \<times> world" where
  "compileShader drv type source w0 =
     (let (shader, w1) = glCreateShader drv type w0;
          w2 = glShaderSource shader source w1;
          w3 = glCompileShader shader w2;
          (success, w4) = glGetShaderiv drv shader GL_COMPILE_STATUS w3
      in if success = 0 then
           (let (infoLog, w5) = glGetShaderInfoLog drv shader 512 w4;
                w6 = cerr (''ERROR::SHADER::COMPILATION_FAILED'' @ [CHR 0x0A] @ infoLog @ [CHR 0x0A]) w5;
                w7 = glDeleteShader shader w6
            in (0, w7))
         else (shader, w4))"

text \<open>
  \<^verbatim>\<open>GLuint createShaderProgram(const char* vtxSrc, const char* fragSrc)\<close>, lines 58 to 85.
\<close>

definition createShaderProgram :: "gl_driver \<Rightarrow> string \<Rightarrow> string \<Rightarrow> world \<Rightarrow> GLuint \<times> world" where
  "createShaderProgram drv vtxSrc fragSrc w0 =
     (let (vertexShader, w1) = compileShader drv GL_VERTEX_SHADER vtxSrc w0;
          (fragmentShader, w2) = compileShader drv GL_FRAGMENT_SHADER fragSrc w1
      in if vertexShader = 0 \<or> fragmentShader = 0 then (0, w2)
         else
           (let (program, w3) = glCreateProgram drv w2;
                w4 = glAttachShader program vertexShader w3;
                w5 = glAttachShader program fragmentShader w4;
                w6 = glLinkProgram program w5;
                (success, w7) = glGetProgramiv drv program GL_LINK_STATUS w6;
                (program', w8) =
                  (if success = 0 then
                     (let (infoLog, w71) = glGetProgramInfoLog drv program 512 w7;
                          w72 = cerr (''ERROR::PROGRAM::LINKING_FAILED'' @ [CHR 0x0A] @ infoLog @ [CHR 0x0A]) w71;
                          w73 = glDeleteProgram program w72
                      in (0, w73))
                   else (program, w7));
                w9 = glDeleteShader vertexShader w8;
                w10 = glDeleteShader fragmentShader w9
            in (program', w10)))"

section \<open>The VxWorks copy: \<^verbatim>\<open>src/main_vxworks.cpp\<close>\<close>

text \<open>
  \<^verbatim>\<open>GLuint loadShader(GLenum type, const char* source)\<close>, lines 28 to 48.
  The log buffer is \<^verbatim>\<open>new char[infoLen]\<close>, allocated only when \<^verbatim>\<open>infoLen > 1\<close>.
\<close>

definition loadShader :: "gl_driver \<Rightarrow> GLenum \<Rightarrow> string \<Rightarrow> world \<Rightarrow> GLuint \<times> world" where
  "loadShader drv type source w0 =
     (let (shader, w1) = glCreateShader drv type w0;
          w2 = glShaderSource shader source w1;
          w3 = glCompileShader shader w2;
          (compiled, w4) = glGetShaderiv drv shader GL_COMPILE_STATUS w3
      in if compiled = 0 then
           (let (infoLen, w5) = glGetShaderiv drv shader GL_INFO_LOG_LENGTH w4;
                w6 =
                  (if 1 <s infoLen then
                     (let (infoLog, w51) = glGetShaderInfoLog drv shader infoLen w5
                      in cerr (''Error compiling shader:'' @ [CHR 0x0A] @ infoLog @ [CHR 0x0A]) w51)
                   else w5);
                w7 = glDeleteShader shader w6
            in (0, w7))
         else (shader, w4))"

text \<open>
  \<^verbatim>\<open>GLuint createProgram(const char* vtxSrc, const char* fragSrc)\<close>, lines 50 to 82.
  On a failed link the function returns at line 75, before the two \<^verbatim>\<open>glDeleteShader\<close>
  calls of lines 78 and 79.
\<close>

definition createProgram :: "gl_driver \<Rightarrow> string \<Rightarrow> string \<Rightarrow> world \<Rightarrow> GLuint \<times> world" where
  "createProgram drv vtxSrc fragSrc w0 =
     (let (vtxShader, w1) = loadShader drv GL_VERTEX_SHADER vtxSrc w0;
          (fragShader, w2) = loadShader drv GL_FRAGMENT_SHADER fragSrc w1
      in if vtxShader = 0 \<or> fragShader = 0 then (0, w2)
         else
           (let (program, w3) = glCreateProgram drv w2;
                w4 = glAttachShader program vtxShader w3;
                w5 = glAttachShader program fragShader w4;
                w6 = glLinkProgram program w5;
                (linked, w7) = glGetProgramiv drv program GL_LINK_STATUS w6
            in if linked = 0 then
                 (let (infoLen, w8) = glGetProgramiv drv program GL_INFO_LOG_LENGTH w7;
                      w9 =
                        (if 1 <s infoLen then
                           (let (infoLog, w81) = glGetProgramInfoLog drv program infoLen w8
                            in cerr (''Error linking program:'' @ [CHR 0x0A] @ infoLog @ [CHR 0x0A]) w81)
                         else w8);
                      w10 = glDeleteProgram program w9
                  in (0, w10))
               else
                 (let w8 = glDeleteShader vtxShader w7;
                      w9 = glDeleteShader fragShader w8
                  in (program, w9))))"

subsection \<open>The VxWorks copy with an allocation that may fail\<close>

text \<open>
  \<^verbatim>\<open>new char[infoLen]\<close> (lines 39 and 69) throws \<^verbatim>\<open>std::bad_alloc\<close> when the allocation fails,
  and neither function has a handler. \<open>loadShader\<close> and \<open>createProgram\<close> above are the two
  functions on a heap where these allocations succeed. The two definitions below are the
  same functions with the heap as a parameter: \<open>alloc w n\<close> tells whether \<^verbatim>\<open>new char[n]\<close>
  succeeds when requested after the trace \<open>w\<close>. An exception that leaves a function is
  \<open>Inl\<close>, a returned handle is \<open>Inr\<close>. An exception thrown in the first \<^verbatim>\<open>loadShader\<close> call
  of \<^verbatim>\<open>createProgram\<close> leaves \<^verbatim>\<open>createProgram\<close> at once. The desktop copy allocates nothing:
  its log buffers are local arrays.
\<close>

datatype cpp_exception = Bad_alloc

definition loadShader_heap ::
  "(world \<Rightarrow> nat \<Rightarrow> bool) \<Rightarrow> gl_driver \<Rightarrow> GLenum \<Rightarrow> string \<Rightarrow> world \<Rightarrow>
     (cpp_exception + GLuint) \<times> world" where
  "loadShader_heap alloc drv type source w0 =
     (let (shader, w1) = glCreateShader drv type w0;
          w2 = glShaderSource shader source w1;
          w3 = glCompileShader shader w2;
          (compiled, w4) = glGetShaderiv drv shader GL_COMPILE_STATUS w3
      in if compiled = 0 then
           (let (infoLen, w5) = glGetShaderiv drv shader GL_INFO_LOG_LENGTH w4
            in if 1 <s infoLen then
                 (if alloc w5 (nat (sint infoLen)) then
                    (let (infoLog, w51) = glGetShaderInfoLog drv shader infoLen w5;
                         w6 = cerr (''Error compiling shader:'' @ [CHR 0x0A] @ infoLog @ [CHR 0x0A]) w51;
                         w7 = glDeleteShader shader w6
                     in (Inr 0, w7))
                  else (Inl Bad_alloc, w5))
               else (Inr 0, glDeleteShader shader w5))
         else (Inr shader, w4))"

definition createProgram_heap ::
  "(world \<Rightarrow> nat \<Rightarrow> bool) \<Rightarrow> gl_driver \<Rightarrow> string \<Rightarrow> string \<Rightarrow> world \<Rightarrow>
     (cpp_exception + GLuint) \<times> world" where
  "createProgram_heap alloc drv vtxSrc fragSrc w0 =
     (case loadShader_heap alloc drv GL_VERTEX_SHADER vtxSrc w0 of
        (Inl e, w1) \<Rightarrow> (Inl e, w1)
      | (Inr vtxShader, w1) \<Rightarrow>
     (case loadShader_heap alloc drv GL_FRAGMENT_SHADER fragSrc w1 of
        (Inl e, w2) \<Rightarrow> (Inl e, w2)
      | (Inr fragShader, w2) \<Rightarrow>
        if vtxShader = 0 \<or> fragShader = 0 then (Inr 0, w2)
        else
          (let (program, w3) = glCreateProgram drv w2;
               w4 = glAttachShader program vtxShader w3;
               w5 = glAttachShader program fragShader w4;
               w6 = glLinkProgram program w5;
               (linked, w7) = glGetProgramiv drv program GL_LINK_STATUS w6
           in if linked = 0 then
                (let (infoLen, w8) = glGetProgramiv drv program GL_INFO_LOG_LENGTH w7
                 in if 1 <s infoLen then
                      (if alloc w8 (nat (sint infoLen)) then
                         (let (infoLog, w81) = glGetProgramInfoLog drv program infoLen w8;
                              w9 = cerr (''Error linking program:'' @ [CHR 0x0A] @ infoLog @ [CHR 0x0A]) w81;
                              w10 = glDeleteProgram program w9
                          in (Inr 0, w10))
                       else (Inl Bad_alloc, w8))
                    else (Inr 0, glDeleteProgram program w8))
              else
                (let w8 = glDeleteShader vtxShader w7;
                     w9 = glDeleteShader fragShader w8
                 in (Inr program, w9)))))"

section \<open>Reading a trace\<close>

text \<open>The events a call added to the trace \<open>w\<close> it started from.\<close>

definition since :: "world \<Rightarrow> world \<Rightarrow> event list" where
  "since w w' = drop (length w) w'"

text \<open>The texts written to \<^verbatim>\<open>std::cerr\<close>, in order.\<close>

fun cerr_of :: "event \<Rightarrow> string list" where
  "cerr_of (EvCerr txt) = [txt]"
| "cerr_of e = []"

definition diagnostics :: "event list \<Rightarrow> string list" where
  "diagnostics evs = concat (map cerr_of evs)"

text \<open>The answers to \<^verbatim>\<open>glGetShaderiv\<close> and \<^verbatim>\<open>glGetProgramiv\<close> for one parameter name, in order.\<close>

fun shader_iv_of :: "GLenum \<Rightarrow> event \<Rightarrow> GLint list" where
  "shader_iv_of pname (EvGetShaderiv sh pname' val) = (if pname' = pname then [val] else [])"
| "shader_iv_of pname e = []"

definition shader_iv_answers :: "GLenum \<Rightarrow> event list \<Rightarrow> GLint list" where
  "shader_iv_answers pname evs = concat (map (shader_iv_of pname) evs)"

fun program_iv_of :: "GLenum \<Rightarrow> event \<Rightarrow> GLint list" where
  "program_iv_of pname (EvGetProgramiv p pname' val) = (if pname' = pname then [val] else [])"
| "program_iv_of pname e = []"

definition program_iv_answers :: "GLenum \<Rightarrow> event list \<Rightarrow> GLint list" where
  "program_iv_answers pname evs = concat (map (program_iv_of pname) evs)"

text \<open>The log texts read back with \<^verbatim>\<open>glGetShaderInfoLog\<close> and \<^verbatim>\<open>glGetProgramInfoLog\<close>.\<close>

fun shader_info_log_of :: "event \<Rightarrow> string list" where
  "shader_info_log_of (EvGetShaderInfoLog sh n txt) = [txt]"
| "shader_info_log_of e = []"

definition shader_info_logs :: "event list \<Rightarrow> string list" where
  "shader_info_logs evs = concat (map shader_info_log_of evs)"

fun program_info_log_of :: "event \<Rightarrow> string list" where
  "program_info_log_of (EvGetProgramInfoLog p n txt) = [txt]"
| "program_info_log_of e = []"

definition program_info_logs :: "event list \<Rightarrow> string list" where
  "program_info_logs evs = concat (map program_info_log_of evs)"

text \<open>
  Objects created and deleted: the stage of each \<^verbatim>\<open>glCreateShader\<close> call, the handle each
  creation returned, and the handle each deletion was given.
\<close>

fun shader_type_of :: "event \<Rightarrow> GLenum list" where
  "shader_type_of (EvCreateShader type sh) = [type]"
| "shader_type_of e = []"

definition shader_types_created :: "event list \<Rightarrow> GLenum list" where
  "shader_types_created evs = concat (map shader_type_of evs)"

fun created_shader_of :: "event \<Rightarrow> GLuint list" where
  "created_shader_of (EvCreateShader type sh) = [sh]"
| "created_shader_of e = []"

definition shaders_created :: "event list \<Rightarrow> GLuint list" where
  "shaders_created evs = concat (map created_shader_of evs)"

fun deleted_shader_of :: "event \<Rightarrow> GLuint list" where
  "deleted_shader_of (EvDeleteShader sh) = [sh]"
| "deleted_shader_of e = []"

definition shaders_deleted :: "event list \<Rightarrow> GLuint list" where
  "shaders_deleted evs = concat (map deleted_shader_of evs)"

fun created_program_of :: "event \<Rightarrow> GLuint list" where
  "created_program_of (EvCreateProgram p) = [p]"
| "created_program_of e = []"

definition programs_created :: "event list \<Rightarrow> GLuint list" where
  "programs_created evs = concat (map created_program_of evs)"

fun deleted_program_of :: "event \<Rightarrow> GLuint list" where
  "deleted_program_of (EvDeleteProgram p) = [p]"
| "deleted_program_of e = []"

definition programs_deleted :: "event list \<Rightarrow> GLuint list" where
  "programs_deleted evs = concat (map deleted_program_of evs)"



section \<open>A small GL for concrete runs\<close>

text \<open>
  The source text last given to a shader with \<^verbatim>\<open>glShaderSource\<close>.
\<close>

fun set_source :: "GLuint \<Rightarrow> event \<Rightarrow> string \<Rightarrow> string" where
  "set_source sh (EvShaderSource sh' src) cur = (if sh' = sh then src else cur)"
| "set_source sh e cur = cur"

definition current_source :: "event list \<Rightarrow> GLuint \<Rightarrow> string" where
  "current_source st sh = fold (set_source sh) st []"

text \<open>
  A driver to run the pipeline on: the vertex shader gets handle 1, the fragment shader
  handle 2, the program handle 3; a shader compiles unless its source is the text
  \<open>''bad''\<close>; the link status, the length reported for \<^verbatim>\<open>GL_INFO_LOG_LENGTH\<close> and the log
  are given.
\<close>

definition toy_gl :: "GLint \<Rightarrow> GLint \<Rightarrow> string \<Rightarrow> gl_driver" where
  "toy_gl link_status log_len log =
     \<lparr> create_shader = (\<lambda>st type. if type = GL_VERTEX_SHADER then 1 else 2),
       create_program = (\<lambda>st. 3),
       shader_iv = (\<lambda>st sh pname.
          if pname = GL_COMPILE_STATUS then (if current_source st sh = ''bad'' then 0 else 1)
          else log_len),
       shader_log = (\<lambda>st sh. log),
       program_iv = (\<lambda>st p pname. if pname = GL_LINK_STATUS then link_status else log_len),
       program_log = (\<lambda>st p. log) \<rparr>"

section \<open>Facts about traces\<close>

lemmas api_defs = glCreateShader_def glShaderSource_def glCompileShader_def glGetShaderiv_def
  glGetShaderInfoLog_def glDeleteShader_def glCreateProgram_def glAttachShader_def
  glLinkProgram_def glGetProgramiv_def glGetProgramInfoLog_def glDeleteProgram_def cerr_def

lemmas observer_defs = diagnostics_def shader_iv_answers_def program_iv_answers_def
  shader_info_logs_def program_info_logs_def shader_types_created_def
  shaders_created_def shaders_deleted_def programs_created_def programs_deleted_def

lemmas toy_defs = toy_gl_def current_source_def gl_state_def word_sless_alt

lemma since_append: "since w (w @ evs) = evs"
  by (simp add: since_def)

lemma since_Nil: "since [] w = w"
  by (simp add: since_def)

lemma gl_state_append: "gl_state (w @ w') = gl_state w @ gl_state w'"
  by (simp add: gl_state_def)

lemma gl_state_Cons:
  "gl_state (e # w) = (if changes_state e then e # gl_state w else gl_state w)"
  by (simp add: gl_state_def)

lemma gl_state_Nil: "gl_state [] = []"
  by (simp add: gl_state_def)

lemmas gl_state_simps = gl_state_append gl_state_Cons gl_state_Nil

lemma compileShader_unfold:
  fixes drv type source w
  defines "h \<equiv> create_shader drv (gl_state w) type"
  defines "st \<equiv> gl_state w @ [EvCreateShader type h, EvShaderSource h source, EvCompileShader h]"
  defines "a \<equiv> shader_iv drv st h GL_COMPILE_STATUS"
  defines "txt \<equiv> take 511 (shader_log drv st h)"
  shows "compileShader drv type source w =
    (if a = 0 then
       (0, w @ [EvCreateShader type h, EvShaderSource h source, EvCompileShader h,
                EvGetShaderiv h GL_COMPILE_STATUS 0, EvGetShaderInfoLog h 512 txt,
                EvCerr (''ERROR::SHADER::COMPILATION_FAILED'' @ [CHR 0x0A] @ txt @ [CHR 0x0A]),
                EvDeleteShader h])
     else
       (h, w @ [EvCreateShader type h, EvShaderSource h source, EvCompileShader h,
                EvGetShaderiv h GL_COMPILE_STATUS a]))"
  unfolding h_def st_def a_def txt_def
  by (simp add: compileShader_def api_defs Let_def gl_state_simps)

lemma loadShader_unfold:
  fixes drv type source w
  defines "h \<equiv> create_shader drv (gl_state w) type"
  defines "st \<equiv> gl_state w @ [EvCreateShader type h, EvShaderSource h source, EvCompileShader h]"
  defines "a \<equiv> shader_iv drv st h GL_COMPILE_STATUS"
  defines "n \<equiv> shader_iv drv st h GL_INFO_LOG_LENGTH"
  defines "txt \<equiv> take (nat (sint n) - 1) (shader_log drv st h)"
  shows "loadShader drv type source w =
    (if a = 0 then
       (if 1 <s n then
          (0, w @ [EvCreateShader type h, EvShaderSource h source, EvCompileShader h,
                   EvGetShaderiv h GL_COMPILE_STATUS 0, EvGetShaderiv h GL_INFO_LOG_LENGTH n,
                   EvGetShaderInfoLog h n txt,
                   EvCerr (''Error compiling shader:'' @ [CHR 0x0A] @ txt @ [CHR 0x0A]),
                   EvDeleteShader h])
        else
          (0, w @ [EvCreateShader type h, EvShaderSource h source, EvCompileShader h,
                   EvGetShaderiv h GL_COMPILE_STATUS 0, EvGetShaderiv h GL_INFO_LOG_LENGTH n,
                   EvDeleteShader h]))
     else
       (h, w @ [EvCreateShader type h, EvShaderSource h source, EvCompileShader h,
                EvGetShaderiv h GL_COMPILE_STATUS a]))"
  unfolding h_def st_def a_def n_def txt_def
  by (simp add: loadShader_def api_defs Let_def gl_state_simps)

lemma createShaderProgram_unfold:
  fixes drv v f w
  assumes c1: "compileShader drv GL_VERTEX_SHADER v w = (vs, w1)"
      and c2: "compileShader drv GL_FRAGMENT_SHADER f w1 = (fs, w2)"
  defines "p \<equiv> create_program drv (gl_state w2)"
  defines "st \<equiv> gl_state w2 @ [EvCreateProgram p, EvAttachShader p vs, EvAttachShader p fs, EvLinkProgram p]"
  defines "a \<equiv> program_iv drv st p GL_LINK_STATUS"
  defines "txt \<equiv> take 511 (program_log drv st p)"
  shows "createShaderProgram drv v f w =
    (if vs = 0 \<or> fs = 0 then (0, w2)
     else if a = 0 then
       (0, w2 @ [EvCreateProgram p, EvAttachShader p vs, EvAttachShader p fs, EvLinkProgram p,
                 EvGetProgramiv p GL_LINK_STATUS 0, EvGetProgramInfoLog p 512 txt,
                 EvCerr (''ERROR::PROGRAM::LINKING_FAILED'' @ [CHR 0x0A] @ txt @ [CHR 0x0A]),
                 EvDeleteProgram p, EvDeleteShader vs, EvDeleteShader fs])
     else
       (p, w2 @ [EvCreateProgram p, EvAttachShader p vs, EvAttachShader p fs, EvLinkProgram p,
                 EvGetProgramiv p GL_LINK_STATUS a, EvDeleteShader vs, EvDeleteShader fs]))"
  unfolding p_def st_def a_def txt_def
  by (simp add: createShaderProgram_def c1 c2 api_defs Let_def gl_state_simps)

lemma createProgram_unfold:
  fixes drv v f w
  assumes c1: "loadShader drv GL_VERTEX_SHADER v w = (vs, w1)"
      and c2: "loadShader drv GL_FRAGMENT_SHADER f w1 = (fs, w2)"
  defines "p \<equiv> create_program drv (gl_state w2)"
  defines "st \<equiv> gl_state w2 @ [EvCreateProgram p, EvAttachShader p vs, EvAttachShader p fs, EvLinkProgram p]"
  defines "a \<equiv> program_iv drv st p GL_LINK_STATUS"
  defines "n \<equiv> program_iv drv st p GL_INFO_LOG_LENGTH"
  defines "txt \<equiv> take (nat (sint n) - 1) (program_log drv st p)"
  shows "createProgram drv v f w =
    (if vs = 0 \<or> fs = 0 then (0, w2)
     else if a = 0 then
       (if 1 <s n then
          (0, w2 @ [EvCreateProgram p, EvAttachShader p vs, EvAttachShader p fs, EvLinkProgram p,
                    EvGetProgramiv p GL_LINK_STATUS 0, EvGetProgramiv p GL_INFO_LOG_LENGTH n,
                    EvGetProgramInfoLog p n txt,
                    EvCerr (''Error linking program:'' @ [CHR 0x0A] @ txt @ [CHR 0x0A]),
                    EvDeleteProgram p])
        else
          (0, w2 @ [EvCreateProgram p, EvAttachShader p vs, EvAttachShader p fs, EvLinkProgram p,
                    EvGetProgramiv p GL_LINK_STATUS 0, EvGetProgramiv p GL_INFO_LOG_LENGTH n,
                    EvDeleteProgram p]))
     else
       (p, w2 @ [EvCreateProgram p, EvAttachShader p vs, EvAttachShader p fs, EvLinkProgram p,
                 EvGetProgramiv p GL_LINK_STATUS a, EvDeleteShader vs, EvDeleteShader fs]))"
  unfolding p_def st_def a_def n_def txt_def
  by (simp add: createProgram_def c1 c2 api_defs Let_def gl_state_simps)


lemma compileShader_outcome:
  assumes "compileShader drv type source w = (r, w')"
  shows "(\<exists>h txt. r = 0 \<and>
            w' = w @ [EvCreateShader type h, EvShaderSource h source, EvCompileShader h,
                      EvGetShaderiv h GL_COMPILE_STATUS 0, EvGetShaderInfoLog h 512 txt,
                      EvCerr (''ERROR::SHADER::COMPILATION_FAILED'' @ [CHR 0x0A] @ txt @ [CHR 0x0A]),
                      EvDeleteShader h]) \<or>
         (\<exists>a. a \<noteq> 0 \<and>
            w' = w @ [EvCreateShader type r, EvShaderSource r source, EvCompileShader r,
                      EvGetShaderiv r GL_COMPILE_STATUS a])"
  using assms unfolding compileShader_unfold by (auto split: if_splits)

lemma loadShader_outcome:
  assumes "loadShader drv type source w = (r, w')"
  shows "(\<exists>h n txt. r = 0 \<and> 1 <s n \<and>
            w' = w @ [EvCreateShader type h, EvShaderSource h source, EvCompileShader h,
                      EvGetShaderiv h GL_COMPILE_STATUS 0, EvGetShaderiv h GL_INFO_LOG_LENGTH n,
                      EvGetShaderInfoLog h n txt,
                      EvCerr (''Error compiling shader:'' @ [CHR 0x0A] @ txt @ [CHR 0x0A]),
                      EvDeleteShader h]) \<or>
         (\<exists>h n. r = 0 \<and> \<not> 1 <s n \<and>
            w' = w @ [EvCreateShader type h, EvShaderSource h source, EvCompileShader h,
                      EvGetShaderiv h GL_COMPILE_STATUS 0, EvGetShaderiv h GL_INFO_LOG_LENGTH n,
                      EvDeleteShader h]) \<or>
         (\<exists>a. a \<noteq> 0 \<and>
            w' = w @ [EvCreateShader type r, EvShaderSource r source, EvCompileShader r,
                      EvGetShaderiv r GL_COMPILE_STATUS a])"
  using assms unfolding loadShader_unfold by (auto split: if_splits)

lemma createShaderProgram_outcome:
  assumes "compileShader drv GL_VERTEX_SHADER v w = (vs, w1)"
      and "compileShader drv GL_FRAGMENT_SHADER f w1 = (fs, w2)"
      and "createShaderProgram drv v f w = (r, w')"
  shows "((vs = 0 \<or> fs = 0) \<and> r = 0 \<and> w' = w2) \<or>
         (\<exists>p txt. vs \<noteq> 0 \<and> fs \<noteq> 0 \<and> r = 0 \<and>
            w' = w2 @ [EvCreateProgram p, EvAttachShader p vs, EvAttachShader p fs, EvLinkProgram p,
                       EvGetProgramiv p GL_LINK_STATUS 0, EvGetProgramInfoLog p 512 txt,
                       EvCerr (''ERROR::PROGRAM::LINKING_FAILED'' @ [CHR 0x0A] @ txt @ [CHR 0x0A]),
                       EvDeleteProgram p, EvDeleteShader vs, EvDeleteShader fs]) \<or>
         (\<exists>a. vs \<noteq> 0 \<and> fs \<noteq> 0 \<and> a \<noteq> 0 \<and>
            w' = w2 @ [EvCreateProgram r, EvAttachShader r vs, EvAttachShader r fs, EvLinkProgram r,
                       EvGetProgramiv r GL_LINK_STATUS a, EvDeleteShader vs, EvDeleteShader fs])"
  using assms(3) unfolding createShaderProgram_unfold [OF assms(1,2)] by (auto split: if_splits)

lemma createProgram_outcome:
  assumes "loadShader drv GL_VERTEX_SHADER v w = (vs, w1)"
      and "loadShader drv GL_FRAGMENT_SHADER f w1 = (fs, w2)"
      and "createProgram drv v f w = (r, w')"
  shows "((vs = 0 \<or> fs = 0) \<and> r = 0 \<and> w' = w2) \<or>
         (\<exists>p n txt. vs \<noteq> 0 \<and> fs \<noteq> 0 \<and> r = 0 \<and> 1 <s n \<and>
            w' = w2 @ [EvCreateProgram p, EvAttachShader p vs, EvAttachShader p fs, EvLinkProgram p,
                       EvGetProgramiv p GL_LINK_STATUS 0, EvGetProgramiv p GL_INFO_LOG_LENGTH n,
                       EvGetProgramInfoLog p n txt,
                       EvCerr (''Error linking program:'' @ [CHR 0x0A] @ txt @ [CHR 0x0A]),
                       EvDeleteProgram p]) \<or>
         (\<exists>p n. vs \<noteq> 0 \<and> fs \<noteq> 0 \<and> r = 0 \<and> \<not> 1 <s n \<and>
            w' = w2 @ [EvCreateProgram p, EvAttachShader p vs, EvAttachShader p fs, EvLinkProgram p,
                       EvGetProgramiv p GL_LINK_STATUS 0, EvGetProgramiv p GL_INFO_LOG_LENGTH n,
                       EvDeleteProgram p]) \<or>
         (\<exists>a. vs \<noteq> 0 \<and> fs \<noteq> 0 \<and> a \<noteq> 0 \<and>
            w' = w2 @ [EvCreateProgram r, EvAttachShader r vs, EvAttachShader r fs, EvLinkProgram r,
                       EvGetProgramiv r GL_LINK_STATUS a, EvDeleteShader vs, EvDeleteShader fs])"
  using assms(3) unfolding createProgram_unfold [OF assms(1,2)] by (auto split: if_splits)

lemma observers_append:
  "diagnostics (xs @ ys) = diagnostics xs @ diagnostics ys"
  "shader_iv_answers pname (xs @ ys) = shader_iv_answers pname xs @ shader_iv_answers pname ys"
  "program_iv_answers pname (xs @ ys) = program_iv_answers pname xs @ program_iv_answers pname ys"
  by (simp_all add: observer_defs)

lemma compile_steps_agree:
  assumes st: "gl_state wx = gl_state wd"
      and d: "compileShader drv type source wd = (rd, wd')"
      and x: "loadShader drv type source wx = (rx, wx')"
  shows "rx = rd \<and>
    (\<exists>ed ex. wd' = wd @ ed \<and> wx' = wx @ ex \<and> gl_state ex = gl_state ed \<and>
       shader_iv_answers GL_COMPILE_STATUS ex = shader_iv_answers GL_COMPILE_STATUS ed \<and>
       program_iv_answers GL_LINK_STATUS ed = [] \<and> program_iv_answers GL_LINK_STATUS ex = [] \<and>
       program_iv_answers GL_INFO_LOG_LENGTH ex = [] \<and>
       length (diagnostics ed) = length (shader_iv_answers GL_INFO_LOG_LENGTH ex) \<and>
       length (diagnostics ex) =
         length (filter (\<lambda>n. 1 <s n) (shader_iv_answers GL_INFO_LOG_LENGTH ex)))"
  using d x unfolding compileShader_unfold loadShader_unfold st
  by (auto simp: observer_defs gl_state_simps split: if_splits)

lemma link_steps_agree:
  assumes st: "gl_state w2x = gl_state w2d"
      and c1d: "compileShader drv GL_VERTEX_SHADER v w = (vs, w1d)"
      and c2d: "compileShader drv GL_FRAGMENT_SHADER f w1d = (fs, w2d)"
      and c1x: "loadShader drv GL_VERTEX_SHADER v w = (vs, w1x)"
      and c2x: "loadShader drv GL_FRAGMENT_SHADER f w1x = (fs, w2x)"
      and d: "createShaderProgram drv v f w = (rd, wd')"
      and x: "createProgram drv v f w = (rx, wx')"
  shows "rx = rd \<and>
    (\<exists>ed ex. wd' = w2d @ ed \<and> wx' = w2x @ ex \<and>
       (0 \<notin> set (program_iv_answers GL_LINK_STATUS ed) \<longrightarrow> gl_state ex = gl_state ed) \<and>
       shader_iv_answers GL_COMPILE_STATUS ed = [] \<and> shader_iv_answers GL_COMPILE_STATUS ex = [] \<and>
       shader_iv_answers GL_INFO_LOG_LENGTH ex = [] \<and>
       program_iv_answers GL_LINK_STATUS ex = program_iv_answers GL_LINK_STATUS ed \<and>
       length (diagnostics ed) = length (program_iv_answers GL_INFO_LOG_LENGTH ex) \<and>
       length (diagnostics ex) =
         length (filter (\<lambda>n. 1 <s n) (program_iv_answers GL_INFO_LOG_LENGTH ex)))"
  using d x unfolding createShaderProgram_unfold [OF c1d c2d] createProgram_unfold [OF c1x c2x] st
  by (auto simp: observer_defs gl_state_simps split: if_splits)






lemmas run_defs = createShaderProgram_def createProgram_def compileShader_def loadShader_def
  loadShader_heap_def createProgram_heap_def
  api_defs Let_def toy_defs since_Nil observer_defs

section \<open>The link guard\<close>

text \<open>
  C3. In both copies the link step is the part of the build function after the two
  compilations. Whenever either compilation returned the handle 0, the build function
  returns 0 and the trace is the one the second compilation left: no \<^verbatim>\<open>glCreateProgram\<close>,
  \<^verbatim>\<open>glAttachShader\<close> or \<^verbatim>\<open>glLinkProgram\<close> call, and no other call, is made.
\<close>

theorem link_guard_short_circuits:
  "(let c1 = compileShader drv GL_VERTEX_SHADER v w;
        c2 = compileShader drv GL_FRAGMENT_SHADER f (snd c1)
    in fst c1 = 0 \<or> fst c2 = 0 \<longrightarrow> createShaderProgram drv v f w = (0, snd c2)) \<and>
   (let c1 = loadShader drv GL_VERTEX_SHADER v w;
        c2 = loadShader drv GL_FRAGMENT_SHADER f (snd c1)
    in fst c1 = 0 \<or> fst c2 = 0 \<longrightarrow> createProgram drv v f w = (0, snd c2))"
  by (auto simp: createShaderProgram_def createProgram_def Let_def split: prod.splits)

theorem link_guard_short_circuits_witness:
  "fst (compileShader (toy_gl 1 0 []) GL_FRAGMENT_SHADER ''bad''
          (snd (compileShader (toy_gl 1 0 []) GL_VERTEX_SHADER ''ok'' []))) = 0 \<and>
   createShaderProgram (toy_gl 1 0 []) ''ok'' ''bad'' [] =
     (0, [EvCreateShader GL_VERTEX_SHADER 1, EvShaderSource 1 ''ok'', EvCompileShader 1,
          EvGetShaderiv 1 GL_COMPILE_STATUS 1,
          EvCreateShader GL_FRAGMENT_SHADER 2, EvShaderSource 2 ''bad'', EvCompileShader 2,
          EvGetShaderiv 2 GL_COMPILE_STATUS 0, EvGetShaderInfoLog 2 512 [],
          EvCerr (''ERROR::SHADER::COMPILATION_FAILED'' @ [CHR 0x0A] @ [CHR 0x0A]),
          EvDeleteShader 2]) \<and>
   fst (loadShader (toy_gl 1 0 []) GL_FRAGMENT_SHADER ''bad''
          (snd (loadShader (toy_gl 1 0 []) GL_VERTEX_SHADER ''ok'' []))) = 0 \<and>
   createProgram (toy_gl 1 0 []) ''ok'' ''bad'' [] =
     (0, [EvCreateShader GL_VERTEX_SHADER 1, EvShaderSource 1 ''ok'', EvCompileShader 1,
          EvGetShaderiv 1 GL_COMPILE_STATUS 1,
          EvCreateShader GL_FRAGMENT_SHADER 2, EvShaderSource 2 ''bad'', EvCompileShader 2,
          EvGetShaderiv 2 GL_COMPILE_STATUS 0, EvGetShaderiv 2 GL_INFO_LOG_LENGTH 0,
          EvDeleteShader 2])"
proof -
  let ?G = "toy_gl 1 0 []"
  have d: "compileShader ?G GL_FRAGMENT_SHADER ''bad''
             (snd (compileShader ?G GL_VERTEX_SHADER ''ok'' [])) =
           (0, [EvCreateShader GL_VERTEX_SHADER 1, EvShaderSource 1 ''ok'', EvCompileShader 1,
                EvGetShaderiv 1 GL_COMPILE_STATUS 1,
                EvCreateShader GL_FRAGMENT_SHADER 2, EvShaderSource 2 ''bad'', EvCompileShader 2,
                EvGetShaderiv 2 GL_COMPILE_STATUS 0, EvGetShaderInfoLog 2 512 [],
                EvCerr (''ERROR::SHADER::COMPILATION_FAILED'' @ [CHR 0x0A] @ [CHR 0x0A]),
                EvDeleteShader 2])"
    by (simp add: compileShader_def api_defs Let_def toy_defs)
  have x: "loadShader ?G GL_FRAGMENT_SHADER ''bad''
             (snd (loadShader ?G GL_VERTEX_SHADER ''ok'' [])) =
           (0, [EvCreateShader GL_VERTEX_SHADER 1, EvShaderSource 1 ''ok'', EvCompileShader 1,
                EvGetShaderiv 1 GL_COMPILE_STATUS 1,
                EvCreateShader GL_FRAGMENT_SHADER 2, EvShaderSource 2 ''bad'', EvCompileShader 2,
                EvGetShaderiv 2 GL_COMPILE_STATUS 0, EvGetShaderiv 2 GL_INFO_LOG_LENGTH 0,
                EvDeleteShader 2])"
    by (simp add: loadShader_def api_defs Let_def toy_defs)
  from link_guard_short_circuits [of ?G "''ok''" "[]" "''bad''"] d x
  show ?thesis by (simp add: Let_def)
qed

section \<open>What a build returns\<close>



section \<open>Shader objects that outlive a build\<close>

text \<open>
  C1. No shader object created during a build should survive it. The code does not
  keep this. Both copies return at the guard after the two compilations without deleting
  the shader that did compile, and the VxWorks copy returns on a failed link before its
  two \<^verbatim>\<open>glDeleteShader\<close> calls. The three runs below show it: a vertex source that compiles
  with a fragment source that does not, in either copy, leaves shader 1 undeleted; a failed
  link in the VxWorks copy leaves shaders 1 and 2 undeleted.
\<close>

theorem shader_objects_leak:
  "createShaderProgram (toy_gl 0 4 ''err'') ''ok'' ''bad'' [] =
     (0, [EvCreateShader GL_VERTEX_SHADER 1, EvShaderSource 1 ''ok'', EvCompileShader 1,
          EvGetShaderiv 1 GL_COMPILE_STATUS 1,
          EvCreateShader GL_FRAGMENT_SHADER 2, EvShaderSource 2 ''bad'', EvCompileShader 2,
          EvGetShaderiv 2 GL_COMPILE_STATUS 0, EvGetShaderInfoLog 2 512 ''err'',
          EvCerr (''ERROR::SHADER::COMPILATION_FAILED'' @ [CHR 0x0A] @ ''err'' @ [CHR 0x0A]),
          EvDeleteShader 2]) \<and>
   createProgram (toy_gl 0 4 ''err'') ''ok'' ''bad'' [] =
     (0, [EvCreateShader GL_VERTEX_SHADER 1, EvShaderSource 1 ''ok'', EvCompileShader 1,
          EvGetShaderiv 1 GL_COMPILE_STATUS 1,
          EvCreateShader GL_FRAGMENT_SHADER 2, EvShaderSource 2 ''bad'', EvCompileShader 2,
          EvGetShaderiv 2 GL_COMPILE_STATUS 0, EvGetShaderiv 2 GL_INFO_LOG_LENGTH 4,
          EvGetShaderInfoLog 2 4 ''err'',
          EvCerr (''Error compiling shader:'' @ [CHR 0x0A] @ ''err'' @ [CHR 0x0A]),
          EvDeleteShader 2]) \<and>
   createProgram (toy_gl 0 4 ''err'') ''ok'' ''ok'' [] =
     (0, [EvCreateShader GL_VERTEX_SHADER 1, EvShaderSource 1 ''ok'', EvCompileShader 1,
          EvGetShaderiv 1 GL_COMPILE_STATUS 1,
          EvCreateShader GL_FRAGMENT_SHADER 2, EvShaderSource 2 ''ok'', EvCompileShader 2,
          EvGetShaderiv 2 GL_COMPILE_STATUS 1,
          EvCreateProgram 3, EvAttachShader 3 1, EvAttachShader 3 2, EvLinkProgram 3,
          EvGetProgramiv 3 GL_LINK_STATUS 0, EvGetProgramiv 3 GL_INFO_LOG_LENGTH 4,
          EvGetProgramInfoLog 3 4 ''err'',
          EvCerr (''Error linking program:'' @ [CHR 0x0A] @ ''err'' @ [CHR 0x0A]),
          EvDeleteProgram 3]) \<and>
   shaders_created (snd (createShaderProgram (toy_gl 0 4 ''err'') ''ok'' ''bad'' [])) = [1, 2] \<and>
   shaders_deleted (snd (createShaderProgram (toy_gl 0 4 ''err'') ''ok'' ''bad'' [])) = [2] \<and>
   shaders_created (snd (createProgram (toy_gl 0 4 ''err'') ''ok'' ''bad'' [])) = [1, 2] \<and>
   shaders_deleted (snd (createProgram (toy_gl 0 4 ''err'') ''ok'' ''bad'' [])) = [2] \<and>
   shaders_created (snd (createProgram (toy_gl 0 4 ''err'') ''ok'' ''ok'' [])) = [1, 2] \<and>
   shaders_deleted (snd (createProgram (toy_gl 0 4 ''err'') ''ok'' ''ok'' [])) = []"
  by (simp add: run_defs)

section \<open>A failed compilation\<close>

text \<open>
  C5, as the code has it. When the compile status is 0, both \<^verbatim>\<open>compileShader\<close> and
  \<^verbatim>\<open>loadShader\<close> delete the shader they created and return 0. \<^verbatim>\<open>compileShader\<close> reads the log
  back once and writes it to \<^verbatim>\<open>std::cerr\<close> after the line \<^verbatim>\<open>ERROR::SHADER::COMPILATION_FAILED\<close>.
  \<^verbatim>\<open>loadShader\<close> first asks for \<^verbatim>\<open>GL_INFO_LOG_LENGTH\<close>; it reads the log back and writes it,
  after the line \<^verbatim>\<open>Error compiling shader:\<close>, only when the answer is greater than 1, and
  writes nothing otherwise.
\<close>

theorem compile_failure_handling:
  "(let (r, w') = compileShader drv type source w; evs = since w w' in
     shader_iv_answers GL_COMPILE_STATUS evs = [0] \<longrightarrow>
       r = 0 \<and>
       length (shader_info_logs evs) = 1 \<and>
       diagnostics evs =
         map (\<lambda>txt. ''ERROR::SHADER::COMPILATION_FAILED'' @ [CHR 0x0A] @ txt @ [CHR 0x0A])
           (shader_info_logs evs) \<and>
       length (shaders_created evs) = 1 \<and>
       shaders_deleted evs = shaders_created evs) \<and>
   (let (r, w') = loadShader drv type source w; evs = since w w' in
     shader_iv_answers GL_COMPILE_STATUS evs = [0] \<longrightarrow>
       r = 0 \<and>
       length (shader_iv_answers GL_INFO_LOG_LENGTH evs) = 1 \<and>
       length (shader_info_logs evs) =
         length (filter (\<lambda>n. 1 <s n) (shader_iv_answers GL_INFO_LOG_LENGTH evs)) \<and>
       diagnostics evs =
         map (\<lambda>txt. ''Error compiling shader:'' @ [CHR 0x0A] @ txt @ [CHR 0x0A])
           (shader_info_logs evs) \<and>
       length (shaders_created evs) = 1 \<and>
       shaders_deleted evs = shaders_created evs)"
  (is "?D \<and> ?X")
proof (rule conjI)
  obtain r w' where c: "compileShader drv type source w = (r, w')" by force
  from compileShader_outcome [OF c] show ?D
    unfolding c by (auto simp: since_append observer_defs)
next
  obtain r w' where c: "loadShader drv type source w = (r, w')" by force
  from loadShader_outcome [OF c] show ?X
    unfolding c by (auto simp: since_append observer_defs)
qed

theorem compile_failure_handling_witness:
  "shader_iv_answers GL_COMPILE_STATUS
     (snd (compileShader (toy_gl 1 4 ''err'') GL_VERTEX_SHADER ''bad'' [])) = [0] \<and>
   fst (compileShader (toy_gl 1 4 ''err'') GL_VERTEX_SHADER ''bad'' []) = 0 \<and>
   diagnostics (snd (compileShader (toy_gl 1 4 ''err'') GL_VERTEX_SHADER ''bad'' [])) =
     [''ERROR::SHADER::COMPILATION_FAILED'' @ [CHR 0x0A] @ ''err'' @ [CHR 0x0A]] \<and>
   shaders_deleted (snd (compileShader (toy_gl 1 4 ''err'') GL_VERTEX_SHADER ''bad'' [])) = [1] \<and>
   shader_iv_answers GL_COMPILE_STATUS
     (snd (loadShader (toy_gl 1 4 ''err'') GL_VERTEX_SHADER ''bad'' [])) = [0] \<and>
   fst (loadShader (toy_gl 1 4 ''err'') GL_VERTEX_SHADER ''bad'' []) = 0 \<and>
   diagnostics (snd (loadShader (toy_gl 1 4 ''err'') GL_VERTEX_SHADER ''bad'' [])) =
     [''Error compiling shader:'' @ [CHR 0x0A] @ ''err'' @ [CHR 0x0A]] \<and>
   shaders_deleted (snd (loadShader (toy_gl 1 4 ''err'') GL_VERTEX_SHADER ''bad'' [])) = [1]"
  using compile_failure_handling [of "toy_gl 1 4 ''err''" GL_VERTEX_SHADER "''bad''" "[]"]
  by (simp add: run_defs)

text \<open>
  C5 as stated fails for \<^verbatim>\<open>loadShader\<close>: with a failed compilation and a reported log length
  of 0, the log is not retrieved and nothing is written.
\<close>

theorem compile_failure_handling_counterexample:
  "shader_iv_answers GL_COMPILE_STATUS
     (snd (loadShader (toy_gl 1 0 []) GL_VERTEX_SHADER ''bad'' [])) = [0] \<and>
   shader_info_logs (snd (loadShader (toy_gl 1 0 []) GL_VERTEX_SHADER ''bad'' [])) = [] \<and>
   diagnostics (snd (loadShader (toy_gl 1 0 []) GL_VERTEX_SHADER ''bad'' [])) = []"
  by (simp add: run_defs)

section \<open>A failed link\<close>

text \<open>
  C4, as the code has it. When the link status is 0 (which is only asked when both shaders
  compiled), both copies delete the program object they created and return 0. The desktop
  copy reads the log back once, writes it after the line \<^verbatim>\<open>ERROR::PROGRAM::LINKING_FAILED\<close>,
  and deletes both shader objects. The VxWorks copy asks for \<^verbatim>\<open>GL_INFO_LOG_LENGTH\<close> and
  reads back and writes the log, after the line \<^verbatim>\<open>Error linking program:\<close>, only when the
  answer is greater than 1. Nothing is stated here about the shader objects of the
  VxWorks copy (see C1).
\<close>

theorem link_failure_handling:
  "(let (r, w') = createShaderProgram drv v f w; evs = since w w' in
     program_iv_answers GL_LINK_STATUS evs = [0] \<longrightarrow>
       r = 0 \<and>
       length (program_info_logs evs) = 1 \<and>
       diagnostics evs =
         map (\<lambda>txt. ''ERROR::PROGRAM::LINKING_FAILED'' @ [CHR 0x0A] @ txt @ [CHR 0x0A])
           (program_info_logs evs) \<and>
       length (programs_created evs) = 1 \<and>
       programs_deleted evs = programs_created evs \<and>
       length (shaders_created evs) = 2 \<and>
       shaders_deleted evs = shaders_created evs) \<and>
   (let (r, w') = createProgram drv v f w; evs = since w w' in
     program_iv_answers GL_LINK_STATUS evs = [0] \<longrightarrow>
       r = 0 \<and>
       length (program_iv_answers GL_INFO_LOG_LENGTH evs) = 1 \<and>
       length (program_info_logs evs) =
         length (filter (\<lambda>n. 1 <s n) (program_iv_answers GL_INFO_LOG_LENGTH evs)) \<and>
       diagnostics evs =
         map (\<lambda>txt. ''Error linking program:'' @ [CHR 0x0A] @ txt @ [CHR 0x0A])
           (program_info_logs evs) \<and>
       length (programs_created evs) = 1 \<and>
       programs_deleted evs = programs_created evs)"
  (is "?D \<and> ?X")
proof (rule conjI)
  obtain vs w1 where c1: "compileShader drv GL_VERTEX_SHADER v w = (vs, w1)" by force
  obtain fs w2 where c2: "compileShader drv GL_FRAGMENT_SHADER f w1 = (fs, w2)" by force
  obtain r w' where b: "createShaderProgram drv v f w = (r, w')" by force
  from compileShader_outcome [OF c1] compileShader_outcome [OF c2]
    createShaderProgram_outcome [OF c1 c2 b]
  show ?D unfolding b by (auto simp: since_append observer_defs)
next
  obtain vs w1 where c1: "loadShader drv GL_VERTEX_SHADER v w = (vs, w1)" by force
  obtain fs w2 where c2: "loadShader drv GL_FRAGMENT_SHADER f w1 = (fs, w2)" by force
  obtain r w' where b: "createProgram drv v f w = (r, w')" by force
  from loadShader_outcome [OF c1] loadShader_outcome [OF c2]
    createProgram_outcome [OF c1 c2 b]
  show ?X unfolding b by (auto simp: since_append observer_defs)
qed

theorem link_failure_handling_witness:
  "program_iv_answers GL_LINK_STATUS
     (snd (createShaderProgram (toy_gl 0 4 ''err'') ''ok'' ''ok'' [])) = [0] \<and>
   fst (createShaderProgram (toy_gl 0 4 ''err'') ''ok'' ''ok'' []) = 0 \<and>
   diagnostics (snd (createShaderProgram (toy_gl 0 4 ''err'') ''ok'' ''ok'' [])) =
     [''ERROR::PROGRAM::LINKING_FAILED'' @ [CHR 0x0A] @ ''err'' @ [CHR 0x0A]] \<and>
   programs_deleted (snd (createShaderProgram (toy_gl 0 4 ''err'') ''ok'' ''ok'' [])) = [3] \<and>
   shaders_deleted (snd (createShaderProgram (toy_gl 0 4 ''err'') ''ok'' ''ok'' [])) = [1, 2] \<and>
   program_iv_answers GL_LINK_STATUS
     (snd (createProgram (toy_gl 0 4 ''err'') ''ok'' ''ok'' [])) = [0] \<and>
   fst (createProgram (toy_gl 0 4 ''err'') ''ok'' ''ok'' []) = 0 \<and>
   diagnostics (snd (createProgram (toy_gl 0 4 ''err'') ''ok'' ''ok'' [])) =
     [''Error linking program:'' @ [CHR 0x0A] @ ''err'' @ [CHR 0x0A]] \<and>
   programs_deleted (snd (createProgram (toy_gl 0 4 ''err'') ''ok'' ''ok'' [])) = [3]"
  using link_failure_handling [of "toy_gl 0 4 ''err''" "''ok''" "''ok''" "[]"]
  by (simp add: run_defs)

text \<open>
  C4 as stated fails for \<^verbatim>\<open>createProgram\<close>: with a failed link and a reported log length of
  0, nothing is written to \<^verbatim>\<open>std::cerr\<close>, and neither shader object is deleted.
\<close>

theorem link_failure_handling_counterexample:
  "program_iv_answers GL_LINK_STATUS (snd (createProgram (toy_gl 0 0 []) ''ok'' ''ok'' [])) = [0] \<and>
   diagnostics (snd (createProgram (toy_gl 0 0 []) ''ok'' ''ok'' [])) = [] \<and>
   shaders_created (snd (createProgram (toy_gl 0 0 []) ''ok'' ''ok'' [])) = [1, 2] \<and>
   shaders_deleted (snd (createProgram (toy_gl 0 0 []) ''ok'' ''ok'' [])) = []"
  by (simp add: run_defs)

section \<open>A vertex shader that compiles, a fragment shader that does not\<close>

text \<open>
  C2, as the code has it. When the compile status of the vertex shader is not 0 and that
  of the fragment shader is 0, both copies return 0 and create no program object, and the
  vertex stage writes no diagnostic. The desktop copy writes exactly one diagnostic. The
  VxWorks copy asks once for \<^verbatim>\<open>GL_INFO_LOG_LENGTH\<close> and writes one diagnostic when the answer
  is greater than 1, none otherwise. Nothing is stated here about the vertex shader
  object (see C1).
\<close>

theorem failed_fragment_build:
  "(let (r, w') = createShaderProgram drv v f w; evs = since w w';
        vtx = since w (snd (compileShader drv GL_VERTEX_SHADER v w)) in
     shader_iv_answers GL_COMPILE_STATUS evs = [a, 0] \<and> a \<noteq> 0 \<longrightarrow>
       r = 0 \<and> programs_created evs = [] \<and>
       diagnostics vtx = [] \<and> length (diagnostics evs) = 1) \<and>
   (let (r, w') = createProgram drv v f w; evs = since w w';
        vtx = since w (snd (loadShader drv GL_VERTEX_SHADER v w)) in
     shader_iv_answers GL_COMPILE_STATUS evs = [a, 0] \<and> a \<noteq> 0 \<longrightarrow>
       r = 0 \<and> programs_created evs = [] \<and>
       diagnostics vtx = [] \<and>
       length (shader_iv_answers GL_INFO_LOG_LENGTH evs) = 1 \<and>
       length (diagnostics evs) =
         length (filter (\<lambda>n. 1 <s n) (shader_iv_answers GL_INFO_LOG_LENGTH evs)))"
  (is "?D \<and> ?X")
proof (rule conjI)
  obtain vs w1 where c1: "compileShader drv GL_VERTEX_SHADER v w = (vs, w1)" by force
  obtain fs w2 where c2: "compileShader drv GL_FRAGMENT_SHADER f w1 = (fs, w2)" by force
  obtain r w' where b: "createShaderProgram drv v f w = (r, w')" by force
  from compileShader_outcome [OF c1] compileShader_outcome [OF c2]
    createShaderProgram_outcome [OF c1 c2 b]
  show ?D unfolding b c1 by (auto simp: since_append observer_defs)
next
  obtain vs w1 where c1: "loadShader drv GL_VERTEX_SHADER v w = (vs, w1)" by force
  obtain fs w2 where c2: "loadShader drv GL_FRAGMENT_SHADER f w1 = (fs, w2)" by force
  obtain r w' where b: "createProgram drv v f w = (r, w')" by force
  from loadShader_outcome [OF c1] loadShader_outcome [OF c2]
    createProgram_outcome [OF c1 c2 b]
  show ?X unfolding b c1 by (auto simp: since_append observer_defs)
qed

theorem failed_fragment_build_witness:
  "shader_iv_answers GL_COMPILE_STATUS
     (snd (createShaderProgram (toy_gl 1 4 ''err'') ''ok'' ''bad'' [])) = [1, 0] \<and>
   fst (createShaderProgram (toy_gl 1 4 ''err'') ''ok'' ''bad'' []) = 0 \<and>
   programs_created (snd (createShaderProgram (toy_gl 1 4 ''err'') ''ok'' ''bad'' [])) = [] \<and>
   length (diagnostics (snd (createShaderProgram (toy_gl 1 4 ''err'') ''ok'' ''bad'' []))) = 1 \<and>
   shader_iv_answers GL_COMPILE_STATUS
     (snd (createProgram (toy_gl 1 4 ''err'') ''ok'' ''bad'' [])) = [1, 0] \<and>
   fst (createProgram (toy_gl 1 4 ''err'') ''ok'' ''bad'' []) = 0 \<and>
   programs_created (snd (createProgram (toy_gl 1 4 ''err'') ''ok'' ''bad'' [])) = [] \<and>
   length (diagnostics (snd (createProgram (toy_gl 1 4 ''err'') ''ok'' ''bad'' []))) = 1"
  using failed_fragment_build [of "toy_gl 1 4 ''err''" "''ok''" "''bad''" "[]" 1]
  by (simp add: run_defs)

text \<open>
  C2 as stated fails for \<^verbatim>\<open>createProgram\<close>: with a reported log length of 0 no diagnostic is
  written at all, and the vertex shader, handle 1, is never deleted.
\<close>

theorem failed_fragment_build_counterexample:
  "shader_iv_answers GL_COMPILE_STATUS (snd (createProgram (toy_gl 1 0 []) ''ok'' ''bad'' [])) = [1, 0] \<and>
   diagnostics (snd (createProgram (toy_gl 1 0 []) ''ok'' ''bad'' [])) = [] \<and>
   shaders_created (snd (createProgram (toy_gl 1 0 []) ''ok'' ''bad'' [])) = [1, 2] \<and>
   shaders_deleted (snd (createProgram (toy_gl 1 0 []) ''ok'' ''bad'' [])) = [2]"
  by (simp add: run_defs)

section \<open>Both stages are always compiled\<close>




section \<open>Failures are reported and returned\<close>




section \<open>How much of the log is written\<close>

text \<open>
  C9, as the code has it. The desktop copy reads the log into a buffer of 512 bytes: the
  diagnostic of a failed compilation or link is the tag line, the first 511 characters
  of the log of the GL, and a newline, with nothing that marks a cut. The VxWorks copy
  sizes the buffer by the answer \<open>n\<close> to \<^verbatim>\<open>GL_INFO_LOG_LENGTH\<close>: when \<open>n\<close> is greater than 1 its
  diagnostic is the tag line, the first \<open>n - 1\<close> characters of the log, and a newline,
  and there is no diagnostic otherwise; 512 is no bound there.
\<close>

theorem log_text_bounds:
  "(let h = create_shader drv (gl_state w0) type;
        st = gl_state w0 @ [EvCreateShader type h, EvShaderSource h source, EvCompileShader h] in
     shader_iv drv st h GL_COMPILE_STATUS = 0 \<longrightarrow>
       diagnostics (since w0 (snd (compileShader drv type source w0))) =
         [''ERROR::SHADER::COMPILATION_FAILED'' @ [CHR 0x0A] @
            take 511 (shader_log drv st h) @ [CHR 0x0A]]) \<and>
   (let (vs, w1) = compileShader drv GL_VERTEX_SHADER v w;
        (fs, w2) = compileShader drv GL_FRAGMENT_SHADER f w1;
        p = create_program drv (gl_state w2);
        st = gl_state w2 @
          [EvCreateProgram p, EvAttachShader p vs, EvAttachShader p fs, EvLinkProgram p] in
     vs \<noteq> 0 \<and> fs \<noteq> 0 \<and> program_iv drv st p GL_LINK_STATUS = 0 \<longrightarrow>
       diagnostics (since w2 (snd (createShaderProgram drv v f w))) =
         [''ERROR::PROGRAM::LINKING_FAILED'' @ [CHR 0x0A] @
            take 511 (program_log drv st p) @ [CHR 0x0A]]) \<and>
   (let h = create_shader drv (gl_state w0) type;
        st = gl_state w0 @ [EvCreateShader type h, EvShaderSource h source, EvCompileShader h];
        n = shader_iv drv st h GL_INFO_LOG_LENGTH in
     shader_iv drv st h GL_COMPILE_STATUS = 0 \<longrightarrow>
       diagnostics (since w0 (snd (loadShader drv type source w0))) =
         (if 1 <s n
          then [''Error compiling shader:'' @ [CHR 0x0A] @
                  take (nat (sint n) - 1) (shader_log drv st h) @ [CHR 0x0A]]
          else [])) \<and>
   (let (vs, w1) = loadShader drv GL_VERTEX_SHADER v w;
        (fs, w2) = loadShader drv GL_FRAGMENT_SHADER f w1;
        p = create_program drv (gl_state w2);
        st = gl_state w2 @
          [EvCreateProgram p, EvAttachShader p vs, EvAttachShader p fs, EvLinkProgram p];
        n = program_iv drv st p GL_INFO_LOG_LENGTH in
     vs \<noteq> 0 \<and> fs \<noteq> 0 \<and> program_iv drv st p GL_LINK_STATUS = 0 \<longrightarrow>
       diagnostics (since w2 (snd (createProgram drv v f w))) =
         (if 1 <s n
          then [''Error linking program:'' @ [CHR 0x0A] @
                  take (nat (sint n) - 1) (program_log drv st p) @ [CHR 0x0A]]
          else []))"
  (is "?DC \<and> ?DL \<and> ?XC \<and> ?XL")
proof (intro conjI)
  show ?DC
    unfolding compileShader_unfold by (simp add: Let_def since_append observer_defs)
  show ?XC
    unfolding loadShader_unfold by (simp add: Let_def since_append observer_defs)
  obtain vs w1 where c1: "compileShader drv GL_VERTEX_SHADER v w = (vs, w1)" by force
  obtain fs w2 where c2: "compileShader drv GL_FRAGMENT_SHADER f w1 = (fs, w2)" by force
  show ?DL
    by (simp add: c1 c2 createShaderProgram_unfold [OF c1 c2] Let_def since_append observer_defs)
  obtain vs w1 where c1: "loadShader drv GL_VERTEX_SHADER v w = (vs, w1)" by force
  obtain fs w2 where c2: "loadShader drv GL_FRAGMENT_SHADER f w1 = (fs, w2)" by force
  show ?XL
    by (simp add: c1 c2 createProgram_unfold [OF c1 c2] Let_def since_append observer_defs)
qed

theorem log_text_bounds_witness:
  "shader_iv_answers GL_COMPILE_STATUS
     (snd (compileShader (toy_gl 0 601 (replicate 600 (CHR ''x''))) GL_VERTEX_SHADER ''bad'' [])) = [0] \<and>
   program_iv_answers GL_LINK_STATUS
     (snd (createShaderProgram (toy_gl 0 601 (replicate 600 (CHR ''x''))) ''ok'' ''ok'' [])) = [0] \<and>
   diagnostics (snd (compileShader (toy_gl 0 601 (replicate 600 (CHR ''x''))) GL_VERTEX_SHADER ''bad'' [])) =
     [''ERROR::SHADER::COMPILATION_FAILED'' @ [CHR 0x0A] @ replicate 511 (CHR ''x'') @ [CHR 0x0A]] \<and>
   diagnostics (snd (createShaderProgram (toy_gl 0 601 (replicate 600 (CHR ''x''))) ''ok'' ''ok'' [])) =
     [''ERROR::PROGRAM::LINKING_FAILED'' @ [CHR 0x0A] @ replicate 511 (CHR ''x'') @ [CHR 0x0A]] \<and>
   diagnostics (snd (loadShader (toy_gl 0 601 (replicate 600 (CHR ''x''))) GL_VERTEX_SHADER ''bad'' [])) =
     [''Error compiling shader:'' @ [CHR 0x0A] @ replicate 600 (CHR ''x'') @ [CHR 0x0A]] \<and>
   diagnostics (snd (createProgram (toy_gl 0 601 (replicate 600 (CHR ''x''))) ''ok'' ''ok'' [])) =
     [''Error linking program:'' @ [CHR 0x0A] @ replicate 600 (CHR ''x'') @ [CHR 0x0A]]"
  using log_text_bounds [of "toy_gl 0 601 (replicate 600 (CHR ''x''))" "[]" GL_VERTEX_SHADER "''bad''"
      "''ok''" "[]" "''ok''"]
  by (simp add: run_defs)

text \<open>
  C9 as stated fails for \<^verbatim>\<open>loadShader\<close>: a log of 600 characters, reported with length 601,
  is written whole.
\<close>

theorem log_text_bounds_counterexample:
  "shader_iv_answers GL_COMPILE_STATUS
     (snd (loadShader (toy_gl 0 601 (replicate 600 (CHR ''x''))) GL_VERTEX_SHADER ''bad'' [])) = [0] \<and>
   diagnostics
     (snd (loadShader (toy_gl 0 601 (replicate 600 (CHR ''x''))) GL_VERTEX_SHADER ''bad'' [])) =
     [''Error compiling shader:'' @ [CHR 0x0A] @ replicate 600 (CHR ''x'') @ [CHR 0x0A]]"
  by (simp add: run_defs)

section \<open>The two copies compared\<close>

text \<open>
  C8, as the code has it. Run on the same driver, sources and starting trace, the two
  copies return the same handle and get the same compile status and link status answers.
  When no link status answer is 0 they make the same state-changing calls (create,
  source, compile, attach, link, delete) in the same order. The diagnostics differ: the
  VxWorks copy asks for \<^verbatim>\<open>GL_INFO_LOG_LENGTH\<close> exactly once for each diagnostic the desktop
  copy writes, and writes one itself only when the answer is greater than 1. Nothing is
  stated here about the calls after a failed link (see C1).
\<close>

theorem copies_agree_up_to_design:
  "(let (rd, wd) = createShaderProgram drv v f w; (rx, wx) = createProgram drv v f w;
        evd = since w wd; evx = since w wx;
        lens = shader_iv_answers GL_INFO_LOG_LENGTH evx @ program_iv_answers GL_INFO_LOG_LENGTH evx in
     rx = rd \<and>
     shader_iv_answers GL_COMPILE_STATUS evx = shader_iv_answers GL_COMPILE_STATUS evd \<and>
     program_iv_answers GL_LINK_STATUS evx = program_iv_answers GL_LINK_STATUS evd \<and>
     (0 \<notin> set (program_iv_answers GL_LINK_STATUS evd) \<longrightarrow> gl_state evx = gl_state evd) \<and>
     length (diagnostics evd) = length lens \<and>
     length (diagnostics evx) = length (filter (\<lambda>n. 1 <s n) lens))"
proof -
  obtain vsd w1d where c1d: "compileShader drv GL_VERTEX_SHADER v w = (vsd, w1d)" by force
  obtain fsd w2d where c2d: "compileShader drv GL_FRAGMENT_SHADER f w1d = (fsd, w2d)" by force
  obtain vsx w1x where c1x: "loadShader drv GL_VERTEX_SHADER v w = (vsx, w1x)" by force
  obtain fsx w2x where c2x: "loadShader drv GL_FRAGMENT_SHADER f w1x = (fsx, w2x)" by force
  obtain rd wd where d: "createShaderProgram drv v f w = (rd, wd)" by force
  obtain rx wx where x: "createProgram drv v f w = (rx, wx)" by force
  from compile_steps_agree [OF refl c1d c1x]
  obtain e1d e1x where s1: "vsx = vsd" "w1d = w @ e1d" "w1x = w @ e1x" "gl_state e1x = gl_state e1d"
    "shader_iv_answers GL_COMPILE_STATUS e1x = shader_iv_answers GL_COMPILE_STATUS e1d"
    "program_iv_answers GL_LINK_STATUS e1d = []" "program_iv_answers GL_LINK_STATUS e1x = []"
    "program_iv_answers GL_INFO_LOG_LENGTH e1x = []"
    "length (diagnostics e1d) = length (shader_iv_answers GL_INFO_LOG_LENGTH e1x)"
    "length (diagnostics e1x) = length (filter (\<lambda>n. 1 <s n) (shader_iv_answers GL_INFO_LOG_LENGTH e1x))"
    by blast
  have st1: "gl_state w1x = gl_state w1d"
    using s1 by (simp add: gl_state_append)
  from compile_steps_agree [OF st1 c2d c2x]
  obtain e2d e2x where s2: "fsx = fsd" "w2d = w1d @ e2d" "w2x = w1x @ e2x" "gl_state e2x = gl_state e2d"
    "shader_iv_answers GL_COMPILE_STATUS e2x = shader_iv_answers GL_COMPILE_STATUS e2d"
    "program_iv_answers GL_LINK_STATUS e2d = []" "program_iv_answers GL_LINK_STATUS e2x = []"
    "program_iv_answers GL_INFO_LOG_LENGTH e2x = []"
    "length (diagnostics e2d) = length (shader_iv_answers GL_INFO_LOG_LENGTH e2x)"
    "length (diagnostics e2x) = length (filter (\<lambda>n. 1 <s n) (shader_iv_answers GL_INFO_LOG_LENGTH e2x))"
    by blast
  have st2: "gl_state w2x = gl_state w2d"
    using s2 st1 by (simp add: gl_state_append)
  from link_steps_agree [OF st2 c1d c2d c1x [unfolded s1(1)] c2x [unfolded s2(1)] d x]
  obtain e3d e3x where s3: "rx = rd" "wd = w2d @ e3d" "wx = w2x @ e3x"
    "0 \<notin> set (program_iv_answers GL_LINK_STATUS e3d) \<longrightarrow> gl_state e3x = gl_state e3d"
    "shader_iv_answers GL_COMPILE_STATUS e3d = []" "shader_iv_answers GL_COMPILE_STATUS e3x = []"
    "shader_iv_answers GL_INFO_LOG_LENGTH e3x = []"
    "program_iv_answers GL_LINK_STATUS e3x = program_iv_answers GL_LINK_STATUS e3d"
    "length (diagnostics e3d) = length (program_iv_answers GL_INFO_LOG_LENGTH e3x)"
    "length (diagnostics e3x) = length (filter (\<lambda>n. 1 <s n) (program_iv_answers GL_INFO_LOG_LENGTH e3x))"
    by blast
  show ?thesis
    unfolding d x using s1 s2 s3
    by (simp add: Let_def since_append observers_append gl_state_append)
qed

theorem copies_agree_up_to_design_witness:
  "0 \<notin> set (program_iv_answers GL_LINK_STATUS
      (snd (createShaderProgram (toy_gl 1 0 []) ''ok'' ''ok'' []))) \<and>
   fst (createProgram (toy_gl 1 0 []) ''ok'' ''ok'' []) =
     fst (createShaderProgram (toy_gl 1 0 []) ''ok'' ''ok'' []) \<and>
   gl_state (snd (createProgram (toy_gl 1 0 []) ''ok'' ''ok'' [])) =
     gl_state (snd (createShaderProgram (toy_gl 1 0 []) ''ok'' ''ok'' []))"
  using copies_agree_up_to_design [of "toy_gl 1 0 []" "''ok''" "''ok''" "[]"]
  by (simp add: run_defs)

text \<open>
  C8 as stated fails: on a failed link with a reported log length of 0, the desktop copy
  deletes both shaders and writes a diagnostic, the VxWorks copy does neither.
\<close>

theorem copies_agree_up_to_design_counterexample:
  "gl_state (snd (createShaderProgram (toy_gl 0 0 []) ''ok'' ''ok'' [])) =
     gl_state (snd (createProgram (toy_gl 0 0 []) ''ok'' ''ok'' [])) @
       [EvDeleteShader 1, EvDeleteShader 2] \<and>
   diagnostics (snd (createShaderProgram (toy_gl 0 0 []) ''ok'' ''ok'' [])) =
     [''ERROR::PROGRAM::LINKING_FAILED'' @ [CHR 0x0A] @ [CHR 0x0A]] \<and>
   diagnostics (snd (createProgram (toy_gl 0 0 []) ''ok'' ''ok'' [])) = []"
  by (simp add: run_defs)

end
